theory Spec2Isabelle
  imports Main "HOL-Library.Sublist" "HOL-Library.AList"
begin

section \<open>Python strings\<close>

text \<open>
  A Python \<^verbatim>\<open>str\<close> is modelled as a HOL \<^typ>\<open>string\<close>: one \<^typ>\<open>char\<close> per code point,
  for texts whose code points are below 256. A \<^verbatim>\<open>bytes\<close> value is a list of
  \<^typ>\<open>char\<close> as well, one per byte.
\<close>

type_synonym bytes = "char list"

definition newline :: char where
  "newline = CHR 0x0A"

definition dquote :: char where
  "dquote = CHR 0x22"

text \<open>
  \<^verbatim>\<open>str.isspace\<close> on one character, for the code points below 256: TAB, LF, VT, FF, CR,
  the separators FS, GS, RS, US, the space, NEL (0x85) and the no-break space (0xA0).
\<close>

definition is_space :: "char \<Rightarrow> bool" where
  "is_space c = (of_char c \<in> ({9, 10, 11, 12, 13, 28, 29, 30, 31, 32, 133, 160} :: nat set))"

text \<open>\<^verbatim>\<open>s.strip(chars)\<close>, the set of characters given as a predicate.\<close>

definition strip_chars :: "(char \<Rightarrow> bool) \<Rightarrow> string \<Rightarrow> string" where
  "strip_chars p s = rev (dropWhile p (rev (dropWhile p s)))"

text \<open>\<^verbatim>\<open>s.strip()\<close>.\<close>

definition strip :: "string \<Rightarrow> string" where
  "strip s = strip_chars is_space s"

text \<open>\<^verbatim>\<open>s.strip('"')\<close>.\<close>

definition strip_quotes :: "string \<Rightarrow> string" where
  "strip_quotes s = strip_chars (\<lambda>c. c = dquote) s"

text \<open>
  \<^verbatim>\<open>s.upper()\<close> on ASCII text: the letters a to z move to A to Z, every other character
  stays. (On letters outside ASCII Python's \<^verbatim>\<open>upper\<close> does more; the labels of the
  sources are ASCII, and so is a country code.)
\<close>

definition upper_char :: "char \<Rightarrow> char" where
  "upper_char c =
     (if (97::nat) \<le> of_char c \<and> of_char c \<le> (122::nat)
      then char_of (of_char c - (32::nat)) else c)"

definition upper :: "string \<Rightarrow> string" where
  "upper s = map upper_char s"

text \<open>
  \<^verbatim>\<open>s.split(sep)\<close> for a separator of one character: every occurrence splits, and
  the result always has at least one piece (so the second branch of the \<open>case\<close> is never
  taken). A character other than the separator goes to the front of the first piece of
  what follows.
\<close>

fun split_on :: "char \<Rightarrow> string \<Rightarrow> string list" where
  "split_on sep [] = [[]]"
| "split_on sep (c # cs) =
     (if c = sep then [] # split_on sep cs
      else (case split_on sep cs of
              piece # pieces \<Rightarrow> (c # piece) # pieces
            | [] \<Rightarrow> [[c]]))"

text \<open>
  \<^verbatim>\<open>s.replace(old, "")\<close>: one pass from the left, deleting each occurrence of
  \<^verbatim>\<open>old\<close> it meets and going on after it. The text put together by the deletions is not
  scanned again. \<^verbatim>\<open>old\<close> is not empty, so the scan goes on \<open>length old - 1\<close>
  characters after the one it stands on.
\<close>

fun remove_all :: "string \<Rightarrow> string \<Rightarrow> string" where
  "remove_all old [] = []"
| "remove_all old (c # cs) =
     (if prefix old (c # cs) then remove_all old (drop (length old - 1) cs)
      else c # remove_all old cs)"

text \<open>
  \<^verbatim>\<open>len(re.findall(old, s))\<close> for a pattern that is a literal text: the matches are
  taken from the left and do not overlap.
\<close>

fun count_matches :: "string \<Rightarrow> string \<Rightarrow> nat" where
  "count_matches old [] = 0"
| "count_matches old (c # cs) =
     (if prefix old (c # cs) then Suc (count_matches old (drop (length old - 1) cs))
      else count_matches old cs)"

text \<open>\<^verbatim>\<open>str(n)\<close> for a natural number, as an f-string prints it.\<close>

fun digit_char :: "nat \<Rightarrow> char" where
  "digit_char n = char_of (48 + n mod 10)"

fun str_nat :: "nat \<Rightarrow> string" where
  "str_nat n = (if n < 10 then [digit_char n] else str_nat (n div 10) @ [digit_char n])"

section \<open>Configuration, remote calls and the state of a run\<close>

text \<open>The two environment variables read at the start.\<close>

record config =
  COUNTRY_CODE :: string
  EPG_FETCHER_URL :: string

text \<open>
  A remote call either raises (the constructor carries the text that \<^verbatim>\<open>{e}\<close> prints)
  or returns: \<open>Inl\<close> is the branch of the \<^verbatim>\<open>except Exception\<close>.
\<close>

datatype exn = Exn string

fun message :: "exn \<Rightarrow> string" where
  "message (Exn m) = m"

text \<open>
  What \<^verbatim>\<open>json.loads\<close> returns. An object is the list of the items of the parsed dict
  (its keys are distinct); numbers are the integers.
\<close>

datatype json =
    JNull
  | JBool bool
  | JNum int
  | JString string
  | JArray "json list"
  | JObject "(string \<times> json) list"

text \<open>The response of the enrichment service: \<^verbatim>\<open>resp.content\<close> and \<^verbatim>\<open>resp.headers\<close>.\<close>

record response =
  content :: bytes
  headers :: "(string \<times> string) list"

text \<open>
  The outcome of every remote call of one run. \<open>playlist_get label url\<close> is
  \<^verbatim>\<open>requests.get(url, timeout=30)\<close>, \<^verbatim>\<open>raise_for_status()\<close> and \<^verbatim>\<open>r.text\<close> in the
  iteration for \<open>label\<close>; \<open>registry_get\<close> the same for the channel database;
  \<open>guide_get\<close> is the request for the guide index with \<^verbatim>\<open>r.json()\<close>;
  \<open>epg_post url payload\<close> is \<^verbatim>\<open>requests.post\<close> with \<^verbatim>\<open>raise_for_status()\<close>.
  \<open>gzip_compress\<close> is \<^verbatim>\<open>gzip.compress\<close> of the standard library, and
  \<open>set_order\<close> the order in which Python iterates over a set (it is not specified).
\<close>

record world =
  playlist_get :: "string \<Rightarrow> string \<Rightarrow> exn + string"
  registry_get :: "exn + string"
  guide_get :: "exn + json"
  epg_post :: "string \<Rightarrow> json \<Rightarrow> exn + response"
  gzip_compress :: "bytes \<Rightarrow> bytes"
  set_order :: "string set \<Rightarrow> string list"

text \<open>The values of the two lookup dicts.\<close>

record channel_rec =
  name :: string
  lang :: string

record guide_rec =
  site :: json
  site_id :: json

datatype file_data = Text string | Bytes bytes

text \<open>
  The global variables of the script, the files it has written under \<^verbatim>\<open>docs/\<close>, the
  payloads it has posted and the lines it has printed. A dict is the list of its items in
  insertion order, updated with \<^const>\<open>AList.update\<close>.
\<close>

record state =
  combined :: string
  channel_ids :: "string set"
  totals :: "(string \<times> nat) list"
  channel_db :: "(string \<times> channel_rec) list"
  epg_channels :: "(json \<times> guide_rec) list"
  files :: "(string \<times> file_data) list"
  posted :: "(string \<times> json) list"
  out :: "string list"

section \<open>Step 1: fetch the playlists\<close>

definition IPTV_BASE :: string where
  "IPTV_BASE = ''https://iptv-org.github.io/iptv''"

definition SOURCES :: "string \<Rightarrow> (string \<times> string) list" where
  "SOURCES cc =
     [(''country'', IPTV_BASE @ ''/countries/'' @ cc @ ''.m3u''),
      (''news'', IPTV_BASE @ ''/categories/news.m3u''),
      (''movies'', IPTV_BASE @ ''/categories/movies.m3u''),
      (''sports'', IPTV_BASE @ ''/categories/sports.m3u'')]"

definition marker :: string where
  "marker = ''#EXTM3U''"

definition init_state :: state where
  "init_state =
     \<lparr>combined = marker @ [newline, newline], channel_ids = {}, totals = [],
      channel_db = [], epg_channels = [], files = [], posted = [], out = []\<rparr>"

definition heading :: "string \<Rightarrow> string \<Rightarrow> string" where
  "heading cc label = (if label = ''country'' then ''LOCAL - '' @ upper cc else upper label)"

definition rule_line :: string where
  "rule_line = ''# ======================================''"

definition banner :: "string \<Rightarrow> string" where
  "banner h = rule_line @ [newline] @ ''# '' @ h @ [newline] @ rule_line @ [newline]"

text \<open>The text one source adds to the combined document after its banner.\<close>

definition body :: "string \<Rightarrow> string" where
  "body doc = strip (remove_all marker doc) @ [newline, newline]"

definition tvg_key :: string where
  "tvg_key = ''tvg-id='' @ [dquote]"

text \<open>
  \<^verbatim>\<open>re.finditer(r'tvg-id="([^"]+)"', content)\<close>, as the list of \<^verbatim>\<open>m.group(1)\<close>. At a
  position where the key stands, the group is the longest run of characters other than the
  quote; the pattern matches when the run is not empty and a quote closes it, and the search
  goes on after that quote. Elsewhere the search moves one character on.
\<close>

function find_tvg_ids :: "string \<Rightarrow> string list" where
  "find_tvg_ids [] = []"
| "find_tvg_ids (c # cs) =
     (if prefix tvg_key (c # cs)
         \<and> takeWhile (\<lambda>x. x \<noteq> dquote) (drop (length tvg_key - 1) cs) \<noteq> []
         \<and> dropWhile (\<lambda>x. x \<noteq> dquote) (drop (length tvg_key - 1) cs) \<noteq> []
      then takeWhile (\<lambda>x. x \<noteq> dquote) (drop (length tvg_key - 1) cs)
             # find_tvg_ids (tl (dropWhile (\<lambda>x. x \<noteq> dquote) (drop (length tvg_key - 1) cs)))
      else find_tvg_ids cs)"
  by pat_completeness auto
termination
proof (relation "measure length")
  fix c :: char and cs :: string
  have "length (tl (dropWhile (\<lambda>x. x \<noteq> dquote) (drop (length tvg_key - 1) cs)))
          \<le> length (dropWhile (\<lambda>x. x \<noteq> dquote) (drop (length tvg_key - 1) cs))"
    by simp
  also have "\<dots> \<le> length (drop (length tvg_key - 1) cs)"
    by (rule length_dropWhile_le)
  also have "\<dots> \<le> length cs"
    by simp
  finally show "(tl (dropWhile (\<lambda>x. x \<noteq> dquote) (drop (length tvg_key - 1) cs)), c # cs)
                  \<in> measure length"
    by simp
qed simp_all

text \<open>
  The loop over the matches: \<^verbatim>\<open>cid = m.group(1).strip()\<close>, added when it is not empty.
\<close>

fun add_ids :: "string list \<Rightarrow> string set \<Rightarrow> string set" where
  "add_ids [] ids = ids"
| "add_ids (v # vs) ids =
     add_ids vs (if strip v \<noteq> [] then insert (strip v) ids else ids)"

text \<open>The body of the \<^verbatim>\<open>try\<close> once the text of the source is there.\<close>

definition fetched :: "string \<Rightarrow> string \<Rightarrow> string \<Rightarrow> state \<Rightarrow> state" where
  "fetched cc label doc st =
     st\<lparr>totals := AList.update label (count_matches ''#EXTINF'' doc) (totals st),
        combined := combined st @ banner (heading cc label) @ body doc,
        channel_ids := add_ids (find_tvg_ids doc) (channel_ids st),
        out := out st @
          [''  '' @ label @ '': '' @ str_nat (count_matches ''#EXTINF'' doc) @ '' channels'']\<rparr>"

text \<open>The \<^verbatim>\<open>except\<close> branch.\<close>

definition fetch_failed :: "string \<Rightarrow> exn \<Rightarrow> state \<Rightarrow> state" where
  "fetch_failed label e st =
     st\<lparr>out := out st @ [''  WARNING: '' @ label @ '' failed - '' @ message e],
        totals := AList.update label 0 (totals st)\<rparr>"

text \<open>The \<^verbatim>\<open>for label, url in SOURCES.items()\<close> loop.\<close>

fun fetch_loop ::
  "string \<Rightarrow> (string \<Rightarrow> string \<Rightarrow> exn + string) \<Rightarrow> (string \<times> string) list \<Rightarrow> state \<Rightarrow> state"
where
  "fetch_loop cc get [] st = st"
| "fetch_loop cc get ((label, url) # rest) st =
     fetch_loop cc get rest
       (case get label url of
          Inr doc \<Rightarrow> fetched cc label doc st
        | Inl e \<Rightarrow> fetch_failed label e st)"

definition playlist_path :: string where
  "playlist_path = ''docs/playlist.m3u8''"

text \<open>
  Writing the playlist and the summary line. (A write that the file system refuses is
  fatal in the script; the model's writes succeed.)
\<close>

definition write_playlist :: "state \<Rightarrow> state" where
  "write_playlist st =
     st\<lparr>files := AList.update playlist_path (Text (combined st)) (files st),
        out := out st @
          [[newline] @ ''Playlist: '' @ str_nat (sum_list (map snd (totals st))) @ '' channels, ''
             @ str_nat (card (channel_ids st)) @ '' unique IDs'']\<rparr>"

section \<open>Step 2: the channel database\<close>

text \<open>
  \<^verbatim>\<open>re.split(r',(?=(?:[^"]*"[^"]*")*[^"]*$)', line)\<close>: the line is cut at every comma
  whose lookahead succeeds, and the lookahead succeeds when the rest of the line, up to its
  end, holds an even number of quotes. (A line has no line feed: it is a piece of
  \<^verbatim>\<open>split("\n")\<close>.)
\<close>

fun split_fields :: "string \<Rightarrow> string list" where
  "split_fields [] = [[]]"
| "split_fields (c # cs) =
     (if c = CHR '','' \<and> even (count_list cs dquote) then [] # split_fields cs
      else (case split_fields cs of
              f # fs \<Rightarrow> (c # f) # fs
            | [] \<Rightarrow> [[c]]))"

text \<open>The three values read from the fields of a record that has at least 7 of them.\<close>

definition record_id :: "string list \<Rightarrow> string" where
  "record_id fs = strip_quotes (strip (fs ! 0))"

definition record_name :: "string list \<Rightarrow> string" where
  "record_name fs = strip_quotes (strip (fs ! 1))"

definition record_lang :: "string list \<Rightarrow> string" where
  "record_lang fs = strip (hd (split_on CHR '';'' (strip_quotes (strip (fs ! 6)))))"

text \<open>The body of \<^verbatim>\<open>for line in lines[1:]\<close>.\<close>

definition add_record :: "string \<Rightarrow> (string \<times> channel_rec) list \<Rightarrow> (string \<times> channel_rec) list" where
  "add_record line db =
     (let fs = split_fields line in
      if length fs \<ge> 7 \<and> record_id fs \<noteq> []
      then AList.update (record_id fs)
             \<lparr>name = record_name fs, lang = record_lang fs\<rparr> db
      else db)"

fun registry_loop :: "string list \<Rightarrow> (string \<times> channel_rec) list \<Rightarrow> (string \<times> channel_rec) list" where
  "registry_loop [] db = db"
| "registry_loop (line # rest) db = registry_loop rest (add_record line db)"

text \<open>
  The dict built from the text of the registry: the first line is the header. Nothing in
  the loop raises, so the \<^verbatim>\<open>except\<close> of step 2 is reached from the request only.
\<close>

definition parse_registry :: "string \<Rightarrow> (string \<times> channel_rec) list" where
  "parse_registry doc = registry_loop (tl (split_on newline (strip doc))) []"

definition load_channel_db :: "world \<Rightarrow> state \<Rightarrow> state" where
  "load_channel_db w st =
     (case registry_get w of
        Inr doc \<Rightarrow>
          st\<lparr>channel_db := parse_registry doc,
             out := out st @
               [''Channel database: '' @ str_nat (length (parse_registry doc)) @ '' entries'']\<rparr>
      | Inl e \<Rightarrow>
          st\<lparr>out := out st @ [''WARNING: Channel database failed - '' @ message e]\<rparr>)"

section \<open>Step 3: the guide index\<close>

text \<open>The name Python gives the type of a parsed value, as its error messages print it.\<close>

fun type_name :: "json \<Rightarrow> string" where
  "type_name JNull = ''NoneType''"
| "type_name (JBool b) = ''bool''"
| "type_name (JNum n) = ''int''"
| "type_name (JString s) = ''str''"
| "type_name (JArray xs) = ''list''"
| "type_name (JObject kvs) = ''dict''"

text \<open>
  \<^verbatim>\<open>for ch in r.json()\<close>: a list gives its elements, a dict its keys, a string its
  characters; the other values are not iterable (a \<^verbatim>\<open>TypeError\<close>).
\<close>

fun iterate :: "json \<Rightarrow> exn + json list" where
  "iterate (JArray xs) = Inr xs"
| "iterate (JObject kvs) = Inr (map (\<lambda>kv. JString (fst kv)) kvs)"
| "iterate (JString s) = Inr (map (\<lambda>c. JString [c]) s)"
| "iterate v = Inl (Exn ([CHR 0x27] @ type_name v @ [CHR 0x27] @ '' object is not iterable''))"

text \<open>Truth value of a parsed value, as \<^verbatim>\<open>if\<close> tests it.\<close>

fun truthy :: "json \<Rightarrow> bool" where
  "truthy JNull = False"
| "truthy (JBool b) = b"
| "truthy (JNum n) = (n \<noteq> 0)"
| "truthy (JString s) = (s \<noteq> [])"
| "truthy (JArray xs) = (xs \<noteq> [])"
| "truthy (JObject kvs) = (kvs \<noteq> [])"

text \<open>\<^verbatim>\<open>d.get(key, default)\<close> on the items of a dict.\<close>

definition dict_get :: "(string \<times> json) list \<Rightarrow> string \<Rightarrow> json \<Rightarrow> json" where
  "dict_get kvs k dflt = (case map_of kvs k of Some v \<Rightarrow> v | None \<Rightarrow> dflt)"

text \<open>
  A value used as a dict key: a list and a dict are not hashable (a \<^verbatim>\<open>TypeError\<close>),
  and \<^verbatim>\<open>True\<close> and \<^verbatim>\<open>False\<close> are the keys 1 and 0.
\<close>

fun dict_key :: "json \<Rightarrow> exn + json" where
  "dict_key (JArray xs) = Inl (Exn (''unhashable type: '' @ [CHR 0x27] @ ''list'' @ [CHR 0x27]))"
| "dict_key (JObject kvs) = Inl (Exn (''unhashable type: '' @ [CHR 0x27] @ ''dict'' @ [CHR 0x27]))"
| "dict_key (JBool b) = Inr (JNum (if b then 1 else 0))"
| "dict_key v = Inr v"

text \<open>
  The loop over the elements. It returns the dict as it stands when the loop ends, and
  the exception that ended it, if one did: an element that is not a dict has no
  \<^verbatim>\<open>get\<close> (an \<^verbatim>\<open>AttributeError\<close>).
\<close>

fun guide_loop ::
  "json list \<Rightarrow> (json \<times> guide_rec) list \<Rightarrow> (json \<times> guide_rec) list \<times> exn option"
where
  "guide_loop [] m = (m, None)"
| "guide_loop (JObject kvs # rest) m =
     (if truthy (dict_get kvs ''xmltv_id'' JNull)
      then (case dict_key (dict_get kvs ''xmltv_id'' JNull) of
              Inl e \<Rightarrow> (m, Some e)
            | Inr k \<Rightarrow>
                guide_loop rest
                  (AList.update k
                     \<lparr>site = dict_get kvs ''site'' (JString []),
                      site_id = dict_get kvs ''site_id'' (JString [])\<rparr> m))
      else guide_loop rest m)"
| "guide_loop (v # rest) m =
     (m, Some (Exn ([CHR 0x27] @ type_name v @ [CHR 0x27]
                      @ '' object has no attribute '' @ [CHR 0x27] @ ''get'' @ [CHR 0x27])))"

definition guide_warning :: "exn \<Rightarrow> string" where
  "guide_warning e = ''WARNING: EPG channels list failed - '' @ message e"

definition load_epg_channels :: "world \<Rightarrow> state \<Rightarrow> state" where
  "load_epg_channels w st =
     (case guide_get w of
        Inl e \<Rightarrow> st\<lparr>out := out st @ [guide_warning e]\<rparr>
      | Inr j \<Rightarrow>
          (case iterate j of
             Inl e \<Rightarrow> st\<lparr>out := out st @ [guide_warning e]\<rparr>
           | Inr chs \<Rightarrow>
               (case guide_loop chs [] of
                  (m, Some e) \<Rightarrow> st\<lparr>epg_channels := m, out := out st @ [guide_warning e]\<rparr>
                | (m, None) \<Rightarrow>
                    st\<lparr>epg_channels := m,
                       out := out st @
                         [''EPG channels list: '' @ str_nat (length m) @ '' entries'']\<rparr>)))"

section \<open>Step 4: enrich and send\<close>

text \<open>
  One entry of the payload, a dict built as the loop body builds it: the identifier, then
  the two fields of the channel database when the identifier is a key of it, then the two
  fields of the guide index when the identifier is a key of that.
\<close>

definition with_registry :: "(string \<times> channel_rec) list \<Rightarrow> string \<Rightarrow> (string \<times> json) list \<Rightarrow> (string \<times> json) list" where
  "with_registry db cid entry =
     (case map_of db cid of
        Some r \<Rightarrow>
          AList.update ''lang'' (JString (lang r))
            (AList.update ''name'' (JString (name r)) entry)
      | None \<Rightarrow> entry)"

definition with_guide :: "(json \<times> guide_rec) list \<Rightarrow> string \<Rightarrow> (string \<times> json) list \<Rightarrow> (string \<times> json) list" where
  "with_guide epg cid entry =
     (case map_of epg (JString cid) of
        Some g \<Rightarrow>
          AList.update ''site_id'' (site_id g)
            (AList.update ''site'' (site g) entry)
      | None \<Rightarrow> entry)"

definition enrich :: "(string \<times> channel_rec) list \<Rightarrow> (json \<times> guide_rec) list \<Rightarrow> string \<Rightarrow> (string \<times> json) list" where
  "enrich db epg cid = with_guide epg cid (with_registry db cid [(''xmltv_id'', JString cid)])"

text \<open>The list \<^verbatim>\<open>enriched\<close> and the counter \<^verbatim>\<open>matched\<close> after the loop over \<open>cids\<close>.\<close>

definition enriched :: "(string \<times> channel_rec) list \<Rightarrow> (json \<times> guide_rec) list \<Rightarrow> string list \<Rightarrow> (string \<times> json) list list" where
  "enriched db epg cids = map (enrich db epg) cids"

definition matched :: "(json \<times> guide_rec) list \<Rightarrow> string list \<Rightarrow> nat" where
  "matched epg cids = length (filter (\<lambda>cid. map_of epg (JString cid) \<noteq> None) cids)"

definition payload :: "string \<Rightarrow> (string \<times> json) list list \<Rightarrow> json" where
  "payload cc entries =
     JObject [(''channels'', JArray (map JObject entries)),
              (''country'', JString cc),
              (''lang'', JString ''en'')]"

text \<open>
  \<^verbatim>\<open>resp.headers.get(name, "")\<close>: the headers of a response are looked up without
  regard to the case of the name.
\<close>

definition lower_char :: "char \<Rightarrow> char" where
  "lower_char c =
     (if (65::nat) \<le> of_char c \<and> of_char c \<le> (90::nat)
      then char_of (of_char c + (32::nat)) else c)"

definition header_get :: "(string \<times> string) list \<Rightarrow> string \<Rightarrow> string" where
  "header_get hs k =
     (case map_of (map (\<lambda>kv. (map lower_char (fst kv), snd kv)) hs) (map lower_char k) of
        Some v \<Rightarrow> v
      | None \<Rightarrow> [])"

text \<open>The test \<^verbatim>\<open>"gzip" in ce or "gzip" in ct\<close>.\<close>

definition declares_gzip :: "response \<Rightarrow> bool" where
  "declares_gzip resp =
     (sublist ''gzip'' (header_get (headers resp) ''Content-Encoding'')
      \<or> sublist ''gzip'' (header_get (headers resp) ''Content-Type''))"

text \<open>The bytes written to the guide-data file.\<close>

definition epg_bytes :: "(bytes \<Rightarrow> bytes) \<Rightarrow> response \<Rightarrow> bytes" where
  "epg_bytes compress resp =
     (if declares_gzip resp then content resp else compress (content resp))"

definition epg_path :: string where
  "epg_path = ''docs/epg.xml.gz''"

text \<open>
  The \<^verbatim>\<open>else\<close> branch of step 4, for the identifiers in the order \<open>cids\<close>. The post
  is recorded whether or not it succeeds. (As in step 1, the write of the file succeeds.)
\<close>

definition send :: "config \<Rightarrow> world \<Rightarrow> string list \<Rightarrow> state \<Rightarrow> state" where
  "send cfg w cids st =
     (let entries = enriched (channel_db st) (epg_channels st) cids;
          req = payload (COUNTRY_CODE cfg) entries;
          st1 = st\<lparr>out := out st @
                  [''Sending '' @ str_nat (length entries) @ '' channels (''
                     @ str_nat (matched (epg_channels st) cids)
                     @ '' with full metadata) to epg-fetcher...''],
                 posted := posted st @ [(EPG_FETCHER_URL cfg, req)]\<rparr>
      in case epg_post w (EPG_FETCHER_URL cfg) req of
           Inr resp \<Rightarrow>
             st1\<lparr>files := AList.update epg_path (Bytes (epg_bytes (gzip_compress w) resp)) (files st1),
                 out := out st1 @
                   [''EPG saved: ''
                      @ str_nat (length (epg_bytes (gzip_compress w) resp) div 1024) @ '' KB'']\<rparr>
         | Inl e \<Rightarrow> st1\<lparr>out := out st1 @ [''WARNING: EPG fetch failed - '' @ message e]\<rparr>)"

definition dispatch :: "config \<Rightarrow> world \<Rightarrow> state \<Rightarrow> state" where
  "dispatch cfg w st =
     (if EPG_FETCHER_URL cfg = [] then st\<lparr>out := out st @ [''EPG_FETCHER_URL not set - skipping'']\<rparr>
      else if channel_ids st = {} then st\<lparr>out := out st @ [''No channel IDs found - skipping EPG'']\<rparr>
      else send cfg w (set_order w (channel_ids st)) st)"

section \<open>The whole script\<close>

definition aggregate :: "config \<Rightarrow> world \<Rightarrow> state" where
  "aggregate cfg w =
     fetch_loop (COUNTRY_CODE cfg) (playlist_get w) (SOURCES (COUNTRY_CODE cfg)) init_state"

definition resolve :: "world \<Rightarrow> state \<Rightarrow> state" where
  "resolve w st = load_epg_channels w (load_channel_db w st)"

definition run :: "config \<Rightarrow> world \<Rightarrow> state" where
  "run cfg w =
     (let st = dispatch cfg w (resolve w (write_playlist (aggregate cfg w)))
      in st\<lparr>out := out st @ [''Done.'']\<rparr>)"

section \<open>What the claims speak of\<close>

text \<open>
  The sources fetched with success, with their texts, in the order of the loop: the input
  of the aggregator as the specification describes it.
\<close>

definition fetched_docs :: "(string \<Rightarrow> string \<Rightarrow> exn + string) \<Rightarrow> (string \<times> string) list \<Rightarrow> (string \<times> string) list" where
  "fetched_docs get srcs =
     concat (map (\<lambda>(label, url). case get label url of Inr doc \<Rightarrow> [(label, doc)] | Inl e \<Rightarrow> []) srcs)"


text \<open>
  The values of all \<^verbatim>\<open>tvg-id\<close> attributes of the fetched texts, as they are written
  there, and the same values stripped, without the empty ones.
\<close>

definition tvg_values :: "(string \<times> string) list \<Rightarrow> string list" where
  "tvg_values docs = concat (map (\<lambda>ld. find_tvg_ids (snd ld)) docs)"

definition stripped_ids :: "(string \<times> string) list \<Rightarrow> string list" where
  "stripped_ids docs = filter (\<lambda>cid. cid \<noteq> []) (map strip (tvg_values docs))"


subsection \<open>A small run\<close>

definition quoted :: "string \<Rightarrow> string" where
  "quoted s = [dquote] @ s @ [dquote]"

text \<open>
  Two of the four sources answer: the country playlist names the channel \<^verbatim>\<open>" abc "\<close>,
  the movies playlist the channel \<^verbatim>\<open>"abc"\<close>.
\<close>

definition playlist_example :: "string \<Rightarrow> string \<Rightarrow> exn + string" where
  "playlist_example label url =
     (if label = ''country'' then Inr (marker @ [newline] @ ''#EXTINF:-1 tvg-id='' @ quoted '' abc '' @ '',One'')
      else if label = ''movies'' then Inr (marker @ [newline] @ ''#EXTINF:-1 tvg-id='' @ quoted ''abc'' @ '',Uno'')
      else Inl (Exn ''timed out''))"

definition example_config :: config where
  "example_config = \<lparr>COUNTRY_CODE = ''us'', EPG_FETCHER_URL = []\<rparr>"

definition example_world :: world where
  "example_world =
     \<lparr>playlist_get = playlist_example,
      registry_get = Inl (Exn ''timed out''),
      guide_get = Inl (Exn ''timed out''),
      epg_post = (\<lambda>url req. Inl (Exn ''timed out'')),
      gzip_compress = (\<lambda>b. b),
      set_order = (\<lambda>ids. [])\<rparr>"

text \<open>The state when step 4 starts: the playlist is written and the two dicts are loaded.\<close>

definition before_dispatch :: "config \<Rightarrow> world \<Rightarrow> state" where
  "before_dispatch cfg w = resolve w (write_playlist (aggregate cfg w))"

text \<open>The same configuration with an endpoint, and a world where no playlist answers.\<close>

definition online_config :: config where
  "online_config = example_config\<lparr>EPG_FETCHER_URL := ''http://epg''\<rparr>"

definition silent_world :: world where
  "silent_world = example_world\<lparr>playlist_get := (\<lambda>label url. Inl (Exn ''timed out''))\<rparr>"

subsection \<open>The registry\<close>




text \<open>
  A registry of a header and three records: the record of the specification's scenario,
  one with 4 fields, and one without an identifier.
\<close>

definition registry_example :: string where
  "registry_example =
     ''id,name,alt_names,network,owners,country,languages'' @ [newline]
       @ ''id1,'' @ quoted ''Demo, Channel'' @ '',,,,CA,'' @ quoted ''en;fr'' @ [newline]
       @ ''id2,Short,,'' @ [newline]
       @ '',NoId,,,,CA,en''"

subsection \<open>The guide index\<close>

text \<open>\<^verbatim>\<open>ch.get("xmltv_id")\<close>, and the value stored for an object.\<close>

definition xmltv_id :: "(string \<times> json) list \<Rightarrow> json" where
  "xmltv_id kvs = dict_get kvs ''xmltv_id'' JNull"

definition guide_value :: "(string \<times> json) list \<Rightarrow> guide_rec" where
  "guide_value kvs =
     \<lparr>site = dict_get kvs ''site'' (JString []), site_id = dict_get kvs ''site_id'' (JString [])\<rparr>"



text \<open>
  The elements the loop goes through without an exception: objects whose \<^verbatim>\<open>xmltv_id\<close>
  is absent, false, or a string, a number or a boolean.
\<close>

fun guide_object :: "json \<Rightarrow> bool" where
  "guide_object (JObject kvs) = (if truthy (xmltv_id kvs) then \<not> isl (dict_key (xmltv_id kvs)) else True)"
| "guide_object v = False"

text \<open>An index in which two objects carry the same identifier.\<close>

definition guide_example :: "json list" where
  "guide_example =
     [JObject [(''xmltv_id'', JString ''abc''), (''site'', JString ''one.example''), (''site_id'', JString ''1'')],
      JObject [(''site'', JString ''none.example'')],
      JObject [(''xmltv_id'', JString []), (''site'', JString ''empty.example'')],
      JObject [(''xmltv_id'', JString ''abc''), (''site'', JString ''two.example'')]]"


subsection \<open>The enrichment service\<close>







section \<open>Strings\<close>

lemma strip_chars_Nil_iff: "strip_chars p s = [] \<longleftrightarrow> (\<forall>c \<in> set s. p c)"
proof
  assume "strip_chars p s = []"
  then have all: "\<forall>c \<in> set (dropWhile p s). p c"
    by (simp add: strip_chars_def)
  show "\<forall>c \<in> set s. p c"
  proof (cases "dropWhile p s")
    case Nil
    then show ?thesis by simp
  next
    case (Cons x xs)
    then have "\<not> p (hd (dropWhile p s))" by (metis hd_dropWhile list.distinct(1))
    with Cons all show ?thesis by simp
  qed
next
  assume "\<forall>c \<in> set s. p c"
  then show "strip_chars p s = []" by (auto simp: strip_chars_def dest: set_dropWhileD)
qed

lemma strip_chars_ends:
  assumes "strip_chars p s \<noteq> []"
  shows "\<not> p (hd (strip_chars p s))" and "\<not> p (last (strip_chars p s))"
proof -
  let ?t = "dropWhile p s"
  let ?r = "dropWhile p (rev ?t)"
  from assms have r: "?r \<noteq> []" by (simp add: strip_chars_def)
  then have t: "?t \<noteq> []" by (auto dest: set_dropWhileD)
  have hd_t: "\<not> p (hd ?t)" using t by (rule hd_dropWhile)
  have "last ?r = last (rev ?t)"
    using t hd_t by (intro dropWhile_last) (auto simp: hd_in_set)
  then have "last ?r = hd ?t" using t by (simp add: last_rev)
  with hd_t r show "\<not> p (hd (strip_chars p s))"
    by (simp add: strip_chars_def hd_rev)
  from r have "\<not> p (hd ?r)" by (rule hd_dropWhile)
  with r show "\<not> p (last (strip_chars p s))"
    by (simp add: strip_chars_def last_rev)
qed

lemma strip_Nil_iff: "strip v = [] \<longleftrightarrow> (\<forall>c \<in> set v. is_space c)"
  by (simp add: strip_def strip_chars_Nil_iff)






section \<open>The loop over the sources\<close>

lemma add_ids_set: "add_ids vs ids = ids \<union> set (filter (\<lambda>cid. cid \<noteq> []) (map strip vs))"
  by (induction vs arbitrary: ids) auto

lemma fetched_docs_Nil [simp]: "fetched_docs get [] = []"
  by (simp add: fetched_docs_def)

lemma fetched_docs_Cons:
  "fetched_docs get ((label, url) # rest) =
     (case get label url of Inr doc \<Rightarrow> [(label, doc)] | Inl e \<Rightarrow> []) @ fetched_docs get rest"
  by (simp add: fetched_docs_def)

lemma fetch_loop_channel_ids:
  "channel_ids (fetch_loop cc get srcs st) = channel_ids st \<union> set (stripped_ids (fetched_docs get srcs))"
proof (induction srcs arbitrary: st)
  case Nil
  show ?case by (simp add: stripped_ids_def tvg_values_def)
next
  case (Cons src srcs)
  obtain label url where src: "src = (label, url)" by (cases src)
  show ?case
  proof (cases "get label url")
    case (Inl e)
    then show ?thesis
      by (simp add: src Cons.IH fetched_docs_Cons fetch_failed_def)
  next
    case (Inr doc)
    then show ?thesis
      by (auto simp: src Cons.IH fetched_docs_Cons fetched_def add_ids_set stripped_ids_def tvg_values_def)
  qed
qed



lemma fetch_loop_files [simp]: "files (fetch_loop cc get srcs st) = files st"
proof (induction srcs arbitrary: st)
  case Nil
  show ?case by simp
next
  case (Cons src srcs)
  obtain label url where src: "src = (label, url)" by (cases src)
  show ?case
    by (cases "get label url") (simp_all add: src Cons.IH fetch_failed_def fetched_def)
qed




lemma aggregate_channel_ids:
  "channel_ids (aggregate cfg w) =
     set (stripped_ids (fetched_docs (playlist_get w) (SOURCES (COUNTRY_CODE cfg))))"
  by (simp add: aggregate_def fetch_loop_channel_ids init_state_def)

lemma example_docs:
  "fetched_docs (playlist_get example_world) (SOURCES (COUNTRY_CODE example_config)) =
     [(''country'', marker @ [newline] @ ''#EXTINF:-1 tvg-id='' @ quoted '' abc '' @ '',One''),
      (''movies'', marker @ [newline] @ ''#EXTINF:-1 tvg-id='' @ quoted ''abc'' @ '',Uno'')]"
  by (simp add: fetched_docs_def SOURCES_def playlist_example_def example_world_def example_config_def)

lemma example_values:
  "tvg_values (fetched_docs (playlist_get example_world) (SOURCES (COUNTRY_CODE example_config))) =
     ['' abc '', ''abc'']"
  by (simp add: example_docs tvg_values_def marker_def quoted_def tvg_key_def dquote_def newline_def)

lemma example_ids:
  "channel_ids (aggregate example_config example_world) = {''abc''}"
  by (simp add: aggregate_channel_ids stripped_ids_def example_values strip_def strip_chars_def
        is_space_def)

section \<open>The identifier set\<close>

text \<open>
  Claim C1, as it is stated: the set has one member for each distinct value of a
  \<^verbatim>\<open>tvg-id\<close> attribute, so it would be the set of these values. In the small run the
  attribute has the two distinct values \<^verbatim>\<open>" abc "\<close> and \<^verbatim>\<open>"abc"\<close>, and the set has
  the one member \<^verbatim>\<open>"abc"\<close>.
\<close>

theorem identifier_set_raw_counterexample:
  "set (tvg_values (fetched_docs (playlist_get example_world) (SOURCES (COUNTRY_CODE example_config))))
     = {'' abc '', ''abc''}
   \<and> channel_ids (aggregate example_config example_world) = {''abc''}
   \<and> channel_ids (aggregate example_config example_world)
       \<noteq> set (tvg_values (fetched_docs (playlist_get example_world) (SOURCES (COUNTRY_CODE example_config))))"
  by (simp add: example_values example_ids)

text \<open>
  Claim C1, amended. For every outcome of the four fetches, the identifier set is the set
  of the stripped values of the \<^verbatim>\<open>tvg-id\<close> attributes of the fetched texts that are not
  empty after stripping; it has as many members as there are distinct such values, however
  many sources and attributes carry each of them.
\<close>

theorem identifier_set_stripped:
  "channel_ids (aggregate cfg w) =
     set (stripped_ids (fetched_docs (playlist_get w) (SOURCES (COUNTRY_CODE cfg))))
   \<and> card (channel_ids (aggregate cfg w)) =
       length (remdups (stripped_ids (fetched_docs (playlist_get w) (SOURCES (COUNTRY_CODE cfg)))))"
  by (simp add: aggregate_channel_ids card_set)

text \<open>
  Claim C10. A text is in the identifier set exactly when it is not empty and is the
  stripped value of a \<^verbatim>\<open>tvg-id\<close> attribute of a fetched text; a member neither starts nor
  ends with a whitespace character; a value of whitespace only adds nothing to the set; and
  of two values with the same stripped text the second adds nothing.
\<close>

theorem identifiers_are_stripped:
  "(cid \<in> channel_ids (aggregate cfg w) \<longleftrightarrow>
      cid \<noteq> [] \<and> cid \<in> strip ` set (tvg_values (fetched_docs (playlist_get w) (SOURCES (COUNTRY_CODE cfg)))))
   \<and> (cid \<in> channel_ids (aggregate cfg w) \<longrightarrow>
        cid \<noteq> [] \<and> \<not> is_space (hd cid) \<and> \<not> is_space (last cid))
   \<and> ((\<forall>c \<in> set v. is_space c) \<longrightarrow> add_ids (v # vs) ids = add_ids vs ids)
   \<and> (strip v1 = strip v2 \<longrightarrow> add_ids (v1 # v2 # vs) ids = add_ids (v1 # vs) ids)"
proof -
  let ?docs = "fetched_docs (playlist_get w) (SOURCES (COUNTRY_CODE cfg))"
  have mem: "cid \<in> channel_ids (aggregate cfg w) \<longleftrightarrow> cid \<noteq> [] \<and> cid \<in> strip ` set (tvg_values ?docs)"
    by (auto simp: aggregate_channel_ids stripped_ids_def)
  have ends: "cid \<noteq> [] \<and> \<not> is_space (hd cid) \<and> \<not> is_space (last cid)"
    if "cid \<in> channel_ids (aggregate cfg w)"
  proof -
    from that mem obtain v where "cid = strip v" and "cid \<noteq> []" by auto
    then show ?thesis
      using strip_chars_ends [of is_space v] by (simp add: strip_def)
  qed
  have blank: "add_ids (v # vs) ids = add_ids vs ids" if "\<forall>c \<in> set v. is_space c"
    using that by (simp add: strip_Nil_iff)
  have same: "add_ids (v1 # v2 # vs) ids = add_ids (v1 # vs) ids" if "strip v1 = strip v2"
    using that by simp
  from mem ends blank same show ?thesis by blast
qed

theorem identifiers_are_stripped_witness:
  "''abc'' \<in> channel_ids (aggregate example_config example_world)
   \<and> \<not> is_space (hd ''abc'') \<and> \<not> is_space (last ''abc'')
   \<and> list_all is_space ''  '' \<and> add_ids [''  ''] {} = add_ids [] {}
   \<and> strip ''abc'' = strip '' abc ''
   \<and> add_ids [''abc'', '' abc ''] {} = add_ids [''abc''] {}"
proof -
  have a: "''abc'' \<in> channel_ids (aggregate example_config example_world)"
    by (simp add: example_ids)
  have b: "\<forall>c \<in> set ''  ''. is_space c"
    by (simp add: is_space_def)
  have c: "strip ''abc'' = strip '' abc ''"
    by (simp add: strip_def strip_chars_def is_space_def)
  from identifiers_are_stripped
         [of "''abc''" example_config example_world "''  ''" "[]" "{}" "''abc''" "'' abc ''"]
       a b c
  show ?thesis
    by (simp add: list_all_iff)
qed

section \<open>The entries sent to the enrichment service\<close>

lemma with_registry_lookup:
  "map_of (with_registry db cid e) =
     (case map_of db cid of
        Some r \<Rightarrow> (map_of e)(''name'' \<mapsto> JString (name r), ''lang'' \<mapsto> JString (lang r))
      | None \<Rightarrow> map_of e)"
  by (simp add: with_registry_def update_conv' split: option.split)

lemma with_guide_lookup:
  "map_of (with_guide epg cid e) =
     (case map_of epg (JString cid) of
        Some g \<Rightarrow> (map_of e)(''site'' \<mapsto> site g, ''site_id'' \<mapsto> site_id g)
      | None \<Rightarrow> map_of e)"
  by (simp add: with_guide_def update_conv' split: option.split)

lemma enrich_lookup:
  "map_of (enrich db epg cid) ''xmltv_id'' = Some (JString cid)"
  "map_of (enrich db epg cid) ''name'' = map_option (\<lambda>r. JString (name r)) (map_of db cid)"
  "map_of (enrich db epg cid) ''lang'' = map_option (\<lambda>r. JString (lang r)) (map_of db cid)"
  "map_of (enrich db epg cid) ''site'' = map_option site (map_of epg (JString cid))"
  "map_of (enrich db epg cid) ''site_id'' = map_option site_id (map_of epg (JString cid))"
  by (simp_all add: enrich_def with_registry_lookup with_guide_lookup split: option.split)

text \<open>
  Claim C3. Every entry of the list the dispatcher builds, for any identifiers and any two
  lookup dicts, belongs to one identifier \<open>cid\<close> of the loop; it has the key \<^verbatim>\<open>name\<close>
  exactly when \<open>cid\<close> is a key of the channel database, and the key \<^verbatim>\<open>lang\<close> exactly
  then; it has the key \<^verbatim>\<open>site\<close> exactly when \<open>cid\<close> is a key of the guide index, and the
  key \<^verbatim>\<open>site_id\<close> exactly then. So the two registry fields are both there or both
  missing, and so are the two guide fields.
\<close>

theorem enriched_entry_pairs:
  assumes "e \<in> set (enriched db epg cids)"
  shows "\<exists>cid. cid \<in> set cids
           \<and> map_of e ''xmltv_id'' = Some (JString cid)
           \<and> (map_of e ''name'' \<noteq> None) = (map_of db cid \<noteq> None)
           \<and> (map_of e ''lang'' \<noteq> None) = (map_of db cid \<noteq> None)
           \<and> (map_of e ''site'' \<noteq> None) = (map_of epg (JString cid) \<noteq> None)
           \<and> (map_of e ''site_id'' \<noteq> None) = (map_of epg (JString cid) \<noteq> None)"
proof -
  from assms obtain cid where "cid \<in> set cids" and e: "e = enrich db epg cid"
    by (auto simp: enriched_def)
  then show ?thesis
    by (intro exI [of _ cid]) (simp add: enrich_lookup)
qed

theorem enriched_entry_pairs_witness:
  "[(''xmltv_id'', JString ''b''), (''site'', JString ''s''), (''site_id'', JNum 7)]
     \<in> set (enriched [(''a'', \<lparr>name = ''A'', lang = ''en''\<rparr>)]
               [(JString ''b'', \<lparr>site = JString ''s'', site_id = JNum 7\<rparr>)] [''a'', ''b''])
   \<and> (\<exists>cid. cid \<in> set [''a'', ''b'']
          \<and> map_of [(''xmltv_id'', JString ''b''), (''site'', JString ''s''), (''site_id'', JNum 7)]
                ''xmltv_id'' = Some (JString cid)
          \<and> (map_of [(''xmltv_id'', JString ''b''), (''site'', JString ''s''), (''site_id'', JNum 7)]
                ''name'' \<noteq> None)
              = (map_of [(''a'', \<lparr>name = ''A'', lang = ''en''\<rparr>)] cid \<noteq> None)
          \<and> (map_of [(''xmltv_id'', JString ''b''), (''site'', JString ''s''), (''site_id'', JNum 7)]
                ''site_id'' \<noteq> None)
              = (map_of [(JString ''b'', \<lparr>site = JString ''s'', site_id = JNum 7\<rparr>)]
                   (JString cid) \<noteq> None))"
proof -
  have m: "[(''xmltv_id'', JString ''b''), (''site'', JString ''s''), (''site_id'', JNum 7)]
     \<in> set (enriched [(''a'', \<lparr>name = ''A'', lang = ''en''\<rparr>)]
               [(JString ''b'', \<lparr>site = JString ''s'', site_id = JNum 7\<rparr>)] [''a'', ''b''])"
    by (simp add: enriched_def enrich_def with_guide_def with_registry_def)
  from enriched_entry_pairs [OF m] m show ?thesis
    by blast
qed

section \<open>What each step leaves alone\<close>


lemma aggregate_files [simp]: "files (aggregate cfg w) = []"
  by (simp add: aggregate_def init_state_def)

lemma fetch_loop_posted [simp]: "posted (fetch_loop cc get srcs st) = posted st"
proof (induction srcs arbitrary: st)
  case Nil
  show ?case by simp
next
  case (Cons src srcs)
  obtain label url where src: "src = (label, url)" by (cases src)
  show ?case
    by (cases "get label url") (simp_all add: src Cons.IH fetch_failed_def fetched_def)
qed

lemma write_playlist_fields [simp]:
  "combined (write_playlist st) = combined st"
  "channel_ids (write_playlist st) = channel_ids st"
  "totals (write_playlist st) = totals st"
  "channel_db (write_playlist st) = channel_db st"
  "epg_channels (write_playlist st) = epg_channels st"
  "posted (write_playlist st) = posted st"
  "files (write_playlist st) = AList.update playlist_path (Text (combined st)) (files st)"
  by (simp_all add: write_playlist_def)

lemma load_channel_db_fields [simp]:
  "combined (load_channel_db w st) = combined st"
  "channel_ids (load_channel_db w st) = channel_ids st"
  "totals (load_channel_db w st) = totals st"
  "epg_channels (load_channel_db w st) = epg_channels st"
  "files (load_channel_db w st) = files st"
  "posted (load_channel_db w st) = posted st"
  by (simp_all add: load_channel_db_def split: sum.split)

lemma load_epg_channels_fields [simp]:
  "combined (load_epg_channels w st) = combined st"
  "channel_ids (load_epg_channels w st) = channel_ids st"
  "totals (load_epg_channels w st) = totals st"
  "channel_db (load_epg_channels w st) = channel_db st"
  "files (load_epg_channels w st) = files st"
  "posted (load_epg_channels w st) = posted st"
  by (simp_all add: load_epg_channels_def split: sum.split prod.split option.split)

lemma resolve_fields [simp]:
  "combined (resolve w st) = combined st"
  "channel_ids (resolve w st) = channel_ids st"
  "totals (resolve w st) = totals st"
  "files (resolve w st) = files st"
  "posted (resolve w st) = posted st"
  by (simp_all add: resolve_def)

lemma send_fields [simp]:
  "combined (send cfg w cids st) = combined st"
  "channel_ids (send cfg w cids st) = channel_ids st"
  "totals (send cfg w cids st) = totals st"
  "channel_db (send cfg w cids st) = channel_db st"
  "epg_channels (send cfg w cids st) = epg_channels st"
  by (simp_all add: send_def Let_def split: sum.split)

lemma dispatch_fields [simp]:
  "combined (dispatch cfg w st) = combined st"
  "channel_ids (dispatch cfg w st) = channel_ids st"
  "totals (dispatch cfg w st) = totals st"
  "channel_db (dispatch cfg w st) = channel_db st"
  "epg_channels (dispatch cfg w st) = epg_channels st"
  by (simp_all add: dispatch_def)

lemma paths_differ: "epg_path \<noteq> playlist_path"
  by (simp add: epg_path_def playlist_path_def)

lemma dispatch_playlist_file:
  "map_of (files (dispatch cfg w st)) playlist_path = map_of (files st) playlist_path"
  using paths_differ by (simp add: dispatch_def send_def Let_def update_conv' split: sum.split)


lemma run_playlist_file:
  "map_of (files (run cfg w)) playlist_path = Some (Text (combined (aggregate cfg w)))"
  by (simp add: run_def Let_def dispatch_playlist_file update_conv')


lemma before_dispatch_files:
  "map_of (files (before_dispatch cfg w)) playlist_path = Some (Text (combined (aggregate cfg w)))"
  "map_of (files (before_dispatch cfg w)) epg_path = None"
  "posted (before_dispatch cfg w) = []"
  using paths_differ by (simp_all add: before_dispatch_def update_conv' aggregate_def init_state_def)

lemma run_before_dispatch:
  "run cfg w = (dispatch cfg w (before_dispatch cfg w))
                 \<lparr>out := out (dispatch cfg w (before_dispatch cfg w)) @ [''Done.'']\<rparr>"
  by (simp add: run_def Let_def before_dispatch_def)





lemma aggregate_lookups [simp]:
  "channel_db (aggregate cfg w) = []" "epg_channels (aggregate cfg w) = []"
proof -
  have "channel_db (fetch_loop cc get srcs st) = channel_db st
        \<and> epg_channels (fetch_loop cc get srcs st) = epg_channels st" for cc get srcs st
  proof (induction srcs arbitrary: st)
    case Nil
    show ?case by simp
  next
    case (Cons src srcs)
    obtain label url where src: "src = (label, url)" by (cases src)
    show ?case
      by (cases "get label url") (simp_all add: src Cons.IH fetch_failed_def fetched_def)
  qed
  then show "channel_db (aggregate cfg w) = []" "epg_channels (aggregate cfg w) = []"
    by (simp_all add: aggregate_def init_state_def)
qed






lemma silent_ids: "channel_ids (aggregate online_config silent_world) = {}"
  by (simp add: aggregate_channel_ids stripped_ids_def tvg_values_def fetched_docs_def SOURCES_def
        silent_world_def example_world_def example_config_def online_config_def)


section \<open>The combined document\<close>





section \<open>Skipping the enrichment\<close>

text \<open>
  Claim C7. Without an endpoint the run ends in the state in which step 4 started, with
  the line \<^verbatim>\<open>EPG_FETCHER_URL not set - skipping\<close> and the final line printed; with an
  endpoint and an empty identifier set it ends in that state with the line
  \<^verbatim>\<open>No channel IDs found - skipping EPG\<close> instead, and the two lines differ. In that state
  the playlist file holds the combined document, no guide-data file exists and nothing
  has been posted. In every run the playlist file holds the combined document.
\<close>

theorem dispatch_skipped:
  "(EPG_FETCHER_URL cfg = [] \<longrightarrow>
      run cfg w = (before_dispatch cfg w)
        \<lparr>out := out (before_dispatch cfg w) @ [''EPG_FETCHER_URL not set - skipping'', ''Done.'']\<rparr>)
   \<and> (EPG_FETCHER_URL cfg \<noteq> [] \<and> channel_ids (aggregate cfg w) = {} \<longrightarrow>
      run cfg w = (before_dispatch cfg w)
        \<lparr>out := out (before_dispatch cfg w) @ [''No channel IDs found - skipping EPG'', ''Done.'']\<rparr>)
   \<and> ''EPG_FETCHER_URL not set - skipping'' \<noteq> ''No channel IDs found - skipping EPG''
   \<and> map_of (files (before_dispatch cfg w)) playlist_path = Some (Text (combined (aggregate cfg w)))
   \<and> map_of (files (before_dispatch cfg w)) epg_path = None
   \<and> posted (before_dispatch cfg w) = []
   \<and> map_of (files (run cfg w)) playlist_path = Some (Text (combined (aggregate cfg w)))"
proof -
  have ids: "channel_ids (before_dispatch cfg w) = channel_ids (aggregate cfg w)"
    by (simp add: before_dispatch_def)
  have "EPG_FETCHER_URL cfg = [] \<longrightarrow>
      run cfg w = (before_dispatch cfg w)
        \<lparr>out := out (before_dispatch cfg w) @ [''EPG_FETCHER_URL not set - skipping'', ''Done.'']\<rparr>"
    by (simp add: run_before_dispatch dispatch_def)
  moreover have "EPG_FETCHER_URL cfg \<noteq> [] \<and> channel_ids (aggregate cfg w) = {} \<longrightarrow>
      run cfg w = (before_dispatch cfg w)
        \<lparr>out := out (before_dispatch cfg w) @ [''No channel IDs found - skipping EPG'', ''Done.'']\<rparr>"
    by (simp add: run_before_dispatch dispatch_def ids)
  moreover have "''EPG_FETCHER_URL not set - skipping'' \<noteq> ''No channel IDs found - skipping EPG''"
    by simp
  ultimately show ?thesis
    by (simp add: before_dispatch_files run_playlist_file)
qed

theorem dispatch_skipped_witness:
  "EPG_FETCHER_URL example_config = []
   \<and> run example_config example_world = (before_dispatch example_config example_world)
        \<lparr>out := out (before_dispatch example_config example_world)
                  @ [''EPG_FETCHER_URL not set - skipping'', ''Done.'']\<rparr>
   \<and> EPG_FETCHER_URL online_config \<noteq> []
   \<and> channel_ids (aggregate online_config silent_world) = {}
   \<and> run online_config silent_world =
        (before_dispatch online_config silent_world)
          \<lparr>out := out (before_dispatch online_config silent_world)
                    @ [''No channel IDs found - skipping EPG'', ''Done.'']\<rparr>"
proof -
  have a: "EPG_FETCHER_URL example_config = []"
    by (simp add: example_config_def)
  have b: "EPG_FETCHER_URL online_config \<noteq> []"
    by (simp add: online_config_def)
  from dispatch_skipped [of example_config example_world]
       dispatch_skipped [of online_config silent_world]
       a b silent_ids
  show ?thesis by blast
qed

section \<open>Failures\<close>



section \<open>The registry\<close>

lemma split_on_not_Nil [simp]: "split_on sep s \<noteq> []"
  by (induction s) (auto split: list.split)

lemma split_fields_not_Nil [simp]: "split_fields s \<noteq> []"
  by (induction s) (auto split: list.split)










lemma registry_example_rows:
  "split_on newline (strip registry_example) =
     [''id,name,alt_names,network,owners,country,languages'',
      ''id1,'' @ quoted ''Demo, Channel'' @ '',,,,CA,'' @ quoted ''en;fr'',
      ''id2,Short,,'',
      '',NoId,,,,CA,en'']"
  by code_simp




section \<open>The guide index\<close>

lemma guide_loop_object:
  "guide_loop (JObject kvs # rest) m =
     (if truthy (xmltv_id kvs)
      then (case dict_key (xmltv_id kvs) of
              Inl e \<Rightarrow> (m, Some e)
            | Inr k \<Rightarrow> guide_loop rest (AList.update k (guide_value kvs) m))
      else guide_loop rest m)"
  by (simp add: xmltv_id_def guide_value_def split: sum.split)










text \<open>
  An element that raises ends the loop, and the dict keeps what the elements before it
  stored: the \<^verbatim>\<open>except\<close> of step 3 prints its warning and the run goes on with that dict.
\<close>

lemma guide_loop_stops:
  assumes "list_all guide_object chs" and "\<not> guide_object v"
  shows "fst (guide_loop (chs @ v # rest) m) = fst (guide_loop chs m)
       \<and> snd (guide_loop (chs @ v # rest) m) \<noteq> None"
  using assms(1)
proof (induction chs arbitrary: m)
  case Nil
  show ?case
  proof (cases v)
    case (JObject kvs)
    with assms(2) obtain e where "truthy (xmltv_id kvs)" and "dict_key (xmltv_id kvs) = Inl e"
      by (cases "dict_key (xmltv_id kvs)") (auto split: if_splits)
    then show ?thesis
      by (simp add: JObject guide_loop_object del: guide_loop.simps(2))
  qed simp_all
next
  case (Cons ch chs)
  from Cons.prems obtain kvs where ch: "ch = JObject kvs"
    by (cases ch) auto
  from Cons.prems have rest: "list_all guide_object chs" by simp
  show ?case
  proof (cases "truthy (xmltv_id kvs)")
    case False
    with Cons.IH [OF rest, of m] show ?thesis
      by (simp add: ch guide_loop_object del: guide_loop.simps)
  next
    case True
    with Cons.prems ch obtain k where k: "dict_key (xmltv_id kvs) = Inr k"
      by (cases "dict_key (xmltv_id kvs)") auto
    with True Cons.IH [OF rest, of "AList.update k (guide_value kvs) m"] show ?thesis
      by (simp add: ch guide_loop_object del: guide_loop.simps)
  qed
qed

lemma guide_loop_stops_example:
  "guide_loop (guide_example @ [JNum 3, JObject [(''xmltv_id'', JString ''later'')]]) [] =
     ([(JString ''abc'', \<lparr>site = JString ''two.example'', site_id = JString []\<rparr>)],
      Some (Exn ([CHR 0x27] @ ''int'' @ [CHR 0x27] @ '' object has no attribute ''
                   @ [CHR 0x27] @ ''get'' @ [CHR 0x27])))"
  by code_simp




section \<open>The guide data\<close>







end
